theory Spec2Isabelle
  imports Complex_Main
begin

section \<open>Values and errors\<close>

text \<open>
  The analyzer computes with numpy floating-point values. They are modelled as real
  numbers together with the three special values that the arithmetic of the program can
  fabricate from finite inputs (a division by zero gives an infinity or NaN). Rounding
  and overflow are not modelled.
\<close>

datatype npfloat = Fin real | PInf | NInf | NaN

datatype error =
    ValueError string
  | NameError string
  | AttributeError string
  | LibraryError

definition np_inf :: "bool \<Rightarrow> npfloat" where
  "np_inf positive = (if positive then PInf else NInf)"

fun np_add :: "npfloat \<Rightarrow> npfloat \<Rightarrow> npfloat" where
  "np_add NaN _ = NaN"
| "np_add _ NaN = NaN"
| "np_add (Fin a) (Fin b) = Fin (a + b)"
| "np_add PInf NInf = NaN"
| "np_add NInf PInf = NaN"
| "np_add PInf _ = PInf"
| "np_add _ PInf = PInf"
| "np_add NInf _ = NInf"
| "np_add _ NInf = NInf"

fun np_neg :: "npfloat \<Rightarrow> npfloat" where
  "np_neg (Fin a) = Fin (- a)"
| "np_neg PInf = NInf"
| "np_neg NInf = PInf"
| "np_neg NaN = NaN"

definition np_sub :: "npfloat \<Rightarrow> npfloat \<Rightarrow> npfloat" where
  "np_sub a b = np_add a (np_neg b)"

fun np_mul :: "npfloat \<Rightarrow> npfloat \<Rightarrow> npfloat" where
  "np_mul NaN _ = NaN"
| "np_mul _ NaN = NaN"
| "np_mul (Fin a) (Fin b) = Fin (a * b)"
| "np_mul PInf (Fin b) = (if b = 0 then NaN else np_inf (0 < b))"
| "np_mul NInf (Fin b) = (if b = 0 then NaN else np_inf (b < 0))"
| "np_mul (Fin a) PInf = (if a = 0 then NaN else np_inf (0 < a))"
| "np_mul (Fin a) NInf = (if a = 0 then NaN else np_inf (a < 0))"
| "np_mul PInf PInf = PInf"
| "np_mul NInf NInf = PInf"
| "np_mul PInf NInf = NInf"
| "np_mul NInf PInf = NInf"

text \<open>Division follows numpy: a zero divisor gives an infinity or NaN, never an exception.\<close>

fun np_div :: "npfloat \<Rightarrow> npfloat \<Rightarrow> npfloat" where
  "np_div NaN _ = NaN"
| "np_div _ NaN = NaN"
| "np_div (Fin a) (Fin b) =
     (if b = 0 then (if a = 0 then NaN else np_inf (0 < a)) else Fin (a / b))"
| "np_div (Fin a) PInf = Fin 0"
| "np_div (Fin a) NInf = Fin 0"
| "np_div PInf (Fin b) = np_inf (0 \<le> b)"
| "np_div NInf (Fin b) = np_inf (b < 0)"
| "np_div PInf PInf = NaN"
| "np_div PInf NInf = NaN"
| "np_div NInf PInf = NaN"
| "np_div NInf NInf = NaN"

text \<open>\<open>np.clip(a, lo, hi)\<close> is \<open>minimum(maximum(a, lo), hi)\<close>; NaN stays NaN.\<close>

fun np_clip :: "npfloat \<Rightarrow> real \<Rightarrow> real \<Rightarrow> npfloat" where
  "np_clip (Fin v) lo hi = Fin (min (max v lo) hi)"
| "np_clip PInf lo hi = Fin hi"
| "np_clip NInf lo hi = Fin (min lo hi)"
| "np_clip NaN lo hi = NaN"

fun in_unit :: "npfloat \<Rightarrow> bool" where
  "in_unit (Fin v) = (0 \<le> v \<and> v \<le> 1)"
| "in_unit PInf = False"
| "in_unit NInf = False"
| "in_unit NaN = False"

section \<open>Analysis session\<close>

text \<open>
  Dates are whole days (the parsed sowing and harvest dates are midnights, and only
  \<open>.days\<close> of a difference is ever used), so a date is an integer day number and a
  \<open>timedelta(days=n)\<close> is the integer \<open>n\<close>. An observation is the day of its timestamp
  and its NDVI value; \<open>ndvi_data\<close> is kept sorted by date by \<open>load_data\<close>.
\<close>

record fvc_param_dict =
  ndvi_soil :: "npfloat option"
  ndvi_vegetation :: "npfloat option"

record fvc_columns =
  FVC_Interpolated :: "npfloat list"
  FVC_Lower_CI :: "npfloat list"
  FVC_Upper_CI :: "npfloat list"
  Ground_Cover_Percentage :: "npfloat list"
  Ground_Cover_Lower_CI :: "npfloat list"
  Ground_Cover_Upper_CI :: "npfloat list"

record daily =
  Date :: "int list"
  Days_After_Sowing :: "int list"
  NDVI_Interpolated :: "npfloat list"
  NDVI_Lower_CI :: "npfloat list"
  NDVI_Upper_CI :: "npfloat list"
  FVC :: "fvc_columns option"
  Growth_Stage :: "string list option"

record analyzer =
  sowing_date :: int
  harvest_date :: int
  ndvi_data :: "(int \<times> real) list"
  fvc_params :: fvc_param_dict
  daily_ndvi :: "daily option"

text \<open>
  \<open>__init__\<close> followed by \<open>load_data\<close>: both reference values start unset, no daily
  series exists yet, and the observations are sorted by date.
\<close>

definition new_analyzer :: "(int \<times> real) list \<Rightarrow> int \<Rightarrow> int \<Rightarrow> analyzer" where
  "new_analyzer rows sowing harvest =
     \<lparr>sowing_date = sowing, harvest_date = harvest, ndvi_data = sort_key fst rows,
      fvc_params = \<lparr>ndvi_soil = None, ndvi_vegetation = None\<rparr>, daily_ndvi = None\<rparr>"

text \<open>
  The fitting, percentile and filtering routines of numpy and scipy that the analyzer
  calls are parameters of the model: a fit returns \<open>None\<close> where the library raises.
  The random source is a parameter as well.
\<close>

record lib =
  interp1d_linear :: "(int \<times> real) list \<Rightarrow> (int \<Rightarrow> npfloat) option"
  interp1d_cubic :: "(int \<times> real) list \<Rightarrow> (int \<Rightarrow> npfloat) option"
  polyfit :: "(int \<times> real) list \<Rightarrow> int \<Rightarrow> real list option"
  percentile :: "npfloat list \<Rightarrow> real \<Rightarrow> npfloat"
  gaussian_filter1d :: "npfloat list \<Rightarrow> npfloat list"

record rng =
  choice_raw :: "nat \<Rightarrow> nat \<Rightarrow> nat"
  random_unit :: "nat \<Rightarrow> real"

section \<open>Parameter estimation\<close>

definition days_after_sowing :: "analyzer \<Rightarrow> int list" where
  "days_after_sowing self = map (\<lambda>(t, v). t - sowing_date self) (ndvi_data self)"

definition ndvi_column :: "analyzer \<Rightarrow> real list" where
  "ndvi_column self = map snd (ndvi_data self)"

text \<open>
  \<open>Series.min()\<close> and \<open>Series.max()\<close> of an empty column are NaN, and Python's
  \<open>max(0.05, nan)\<close> and \<open>min(0.95, nan)\<close> return their first argument.
\<close>

definition pd_min :: "real list \<Rightarrow> npfloat" where
  "pd_min vs = (case vs of [] \<Rightarrow> NaN | v # r \<Rightarrow> Fin (fold min r v))"

definition pd_max :: "real list \<Rightarrow> npfloat" where
  "pd_max vs = (case vs of [] \<Rightarrow> NaN | v # r \<Rightarrow> Fin (fold max r v))"

fun py_max :: "real \<Rightarrow> npfloat \<Rightarrow> npfloat" where
  "py_max a (Fin b) = (if b > a then Fin b else Fin a)"
| "py_max a PInf = PInf"
| "py_max a NInf = Fin a"
| "py_max a NaN = Fin a"

fun py_min :: "real \<Rightarrow> npfloat \<Rightarrow> npfloat" where
  "py_min a (Fin b) = (if b < a then Fin b else Fin a)"
| "py_min a PInf = Fin a"
| "py_min a NInf = NInf"
| "py_min a NaN = Fin a"

text \<open>
  \<open>Series.quantile(q)\<close> with the default linear interpolation, on a non-empty column:
  position \<open>(n - 1) * q\<close> in the sorted values, interpolated between its neighbours.
\<close>

definition pd_quantile :: "real list \<Rightarrow> real \<Rightarrow> real" where
  "pd_quantile vs q =
     (let s = sort vs;
          h = real (length s - 1) * q;
          lo = nat \<lfloor>h\<rfloor>;
          hi = min (lo + 1) (length s - 1)
      in s ! lo + (h - real lo) * (s ! hi - s ! lo))"

definition estimate_fvc_parameters ::
  "string \<Rightarrow> analyzer \<Rightarrow> error + (fvc_param_dict \<times> analyzer)" where
  "estimate_fvc_parameters method self =
     (if method = ''literature'' then
        (let p = \<lparr>ndvi_soil = Some (Fin 0.15), ndvi_vegetation = Some (Fin 0.85)\<rparr>
         in Inr (p, self\<lparr>fvc_params := p\<rparr>))
      else if method = ''data_driven'' then
        (let ndvi_min = pd_min (ndvi_column self);
             ndvi_max = pd_max (ndvi_column self);
             p = \<lparr>ndvi_soil = Some (py_max 0.05 (np_sub ndvi_min (Fin 0.02))),
                  ndvi_vegetation = Some (py_min 0.95 (np_add ndvi_max (Fin 0.02)))\<rparr>
         in Inr (p, self\<lparr>fvc_params := p\<rparr>))
      else if method = ''seasonal'' then
        (let rows = zip (days_after_sowing self) (ndvi_column self);
             early = map snd (filter (\<lambda>(d, v). d \<le> 30) rows);
             soil = (if early \<noteq> [] then pd_quantile early 0.25 else 0.15);
             mid = map snd (filter (\<lambda>(d, v). 60 \<le> d \<and> d \<le> 120) rows);
             vegetation = (if mid \<noteq> [] then pd_quantile mid 0.75 else 0.85);
             p = \<lparr>ndvi_soil = Some (Fin (max 0.05 soil)),
                  ndvi_vegetation = Some (Fin (min 0.95 vegetation))\<rparr>
         in Inr (p, self\<lparr>fvc_params := p\<rparr>))
      else Inl (ValueError ''Method must be 'literature', 'data_driven', or 'seasonal''))"

section \<open>Index normalisation\<close>

definition fvc_value :: "npfloat \<Rightarrow> npfloat \<Rightarrow> npfloat \<Rightarrow> npfloat" where
  "fvc_value soil vegetation v =
     np_clip (np_div (np_sub v soil) (np_sub vegetation soil)) 0 1"

definition calculate_fvc :: "analyzer \<Rightarrow> npfloat list \<Rightarrow> error + npfloat list" where
  "calculate_fvc self ndvi_values =
     (if ndvi_soil (fvc_params self) = None \<or> ndvi_vegetation (fvc_params self) = None then
        Inl (ValueError ''FVC parameters not estimated. Call estimate_fvc_parameters() first.'')
      else Inr (map (fvc_value (the (ndvi_soil (fvc_params self)))
                               (the (ndvi_vegetation (fvc_params self)))) ndvi_values))"

definition calculate_ground_cover_percentage :: "npfloat list \<Rightarrow> npfloat list" where
  "calculate_ground_cover_percentage fvc_values = map (\<lambda>f. np_mul f (Fin 100)) fvc_values"

section \<open>Trajectory reconstruction\<close>

definition emergence_day :: int where "emergence_day = 10"
definition tillering_start :: int where "tillering_start = 45"
definition stem_elongation_start :: int where "stem_elongation_start = 120"
definition booting_start :: int where "booting_start = 200"
definition heading_start :: int where "heading_start = 220"
definition flowering_start :: int where "flowering_start = 230"
definition grain_filling_start :: int where "grain_filling_start = 245"
definition maturity_start :: int where "maturity_start = 270"

text \<open>\<open>max(x_interp)\<close> is only evaluated inside a loop over \<open>x_interp\<close>, hence on a
  non-empty array.\<close>

definition py_max_list :: "int list \<Rightarrow> int" where
  "py_max_list xs = (case xs of [] \<Rightarrow> 0 | x # r \<Rightarrow> fold max r x)"

text \<open>\<open>np.where(x_interp == obs_day)[0][0]\<close>: the first position holding the day.\<close>

definition first_index :: "int list \<Rightarrow> int \<Rightarrow> nat" where
  "first_index xs v = length (takeWhile (\<lambda>x. x \<noteq> v) xs)"

text \<open>\<open>(1 - weight) * y_interp[i] + weight * target_ndvi\<close>\<close>

definition blend :: "real \<Rightarrow> npfloat \<Rightarrow> npfloat \<Rightarrow> npfloat" where
  "blend weight y target_ndvi =
     np_add (np_mul (Fin (1 - weight)) y) (np_mul (Fin weight) target_ndvi)"

text \<open>
  The quotient of the last phase divides two numpy integers: when the season is exactly
  \<open>maturity_start\<close> days long the divisor is zero and the quotient is NaN.
\<close>

definition last_phase_progress :: "int \<Rightarrow> int \<Rightarrow> npfloat" where
  "last_phase_progress max_x days =
     np_div (Fin (real_of_int (days - maturity_start)))
            (Fin (real_of_int (max_x - maturity_start)))"

definition balanced_constrain :: "int \<Rightarrow> int \<Rightarrow> npfloat \<Rightarrow> npfloat" where
  "balanced_constrain max_x days y =
     (if days < emergence_day then
        (let transition = 1 - exp (- real_of_int (emergence_day - days) / 5)
         in np_add (Fin (0.05 * transition)) (np_mul y (Fin (1 - transition))))
      else if days < tillering_start then
        (let progress = real_of_int (days - emergence_day)
                          / real_of_int (tillering_start - emergence_day);
             target_ndvi = 0.05 + 0.25 * progress
         in blend 0.4 y (Fin target_ndvi))
      else if days < stem_elongation_start then
        (let progress = real_of_int (days - tillering_start)
                          / real_of_int (stem_elongation_start - tillering_start);
             target_ndvi = 0.30 + 0.35 * progress
         in blend 0.5 y (Fin target_ndvi))
      else if days < booting_start then
        (let progress = real_of_int (days - stem_elongation_start)
                          / real_of_int (booting_start - stem_elongation_start);
             target_ndvi = 0.65 + 0.20 * progress
         in blend 0.6 y (Fin target_ndvi))
      else if days < flowering_start then
        (let progress = real_of_int (days - booting_start)
                          / real_of_int (flowering_start - booting_start);
             target_ndvi = 0.85 + 0.10 * progress
         in blend 0.7 y (Fin target_ndvi))
      else if days < grain_filling_start then
        blend 0.8 y (Fin 0.95)
      else if days < maturity_start then
        (let progress = real_of_int (days - grain_filling_start)
                          / real_of_int (maturity_start - grain_filling_start);
             target_ndvi = 0.95 - 0.30 * progress
         in blend 0.6 y (Fin target_ndvi))
      else
        (let progress = last_phase_progress max_x days;
             target_ndvi = np_sub (Fin 0.65) (np_mul (Fin 0.50) progress)
         in blend 0.7 y target_ndvi))"

definition sigmoid_baseline :: "real \<Rightarrow> real \<Rightarrow> int \<Rightarrow> npfloat" where
  "sigmoid_baseline peak_ndvi peak_day x =
     Fin (0.05 + (peak_ndvi - 0.05) / (1 + exp (- 0.02 * (real_of_int x - peak_day))))"

text \<open>The observation pull of the balanced method, for one observation.\<close>

definition pull_point :: "npfloat list \<Rightarrow> nat \<Rightarrow> real \<Rightarrow> npfloat list" where
  "pull_point y idx obs_ndvi =
     y[idx := np_add (Fin (0.9 * obs_ndvi)) (np_mul (Fin 0.1) (y ! idx))]"

definition pull_nearby :: "int list \<Rightarrow> int \<Rightarrow> real \<Rightarrow> nat \<Rightarrow> npfloat list \<Rightarrow> npfloat list" where
  "pull_nearby x_interp obs_day obs_ndvi idx y =
     map (\<lambda>i. if i \<noteq> idx then
                 (let distance = \<bar>x_interp ! i - obs_day\<bar> in
                  if distance < 50 then
                    (let influence = exp (- real_of_int distance / 15)
                     in np_add (np_mul (Fin (1 - influence * 0.5)) (y ! i))
                               (Fin (influence * 0.5 * obs_ndvi)))
                  else y ! i)
               else y ! i) [0..<length x_interp]"

definition apply_observation :: "int list \<Rightarrow> int \<times> real \<Rightarrow> npfloat list \<Rightarrow> npfloat list" where
  "apply_observation x_interp ob y =
     (case ob of (obs_day, obs_ndvi) \<Rightarrow>
        if obs_day \<in> set x_interp then
          (let idx = first_index x_interp obs_day
           in pull_nearby x_interp obs_day obs_ndvi idx (pull_point y idx obs_ndvi))
        else y)"

text \<open>The series of the balanced method before the smoothing filter. \<open>np.max\<close> of an
  empty array raises.\<close>

definition balanced_presmooth :: "analyzer \<Rightarrow> int list \<Rightarrow> error + npfloat list" where
  "balanced_presmooth self x_interp =
     (let x_obs = days_after_sowing self; y_obs = ndvi_column self in
      case y_obs of
        [] \<Rightarrow> Inl (ValueError ''zero-size array to reduction operation maximum which has no identity'')
      | v # r \<Rightarrow>
          (let peak_ndvi = fold max r v;
               peak_day = real_of_int (sum_list x_obs) / real (length x_obs);
               baseline = map (sigmoid_baseline peak_ndvi peak_day) x_interp;
               constrained = map (\<lambda>(days, y). balanced_constrain (py_max_list x_interp) days y)
                                 (zip x_interp baseline)
           in Inr (fold (apply_observation x_interp) (zip x_obs y_obs) constrained)))"

text \<open>
  Two parts of the balanced method, named for the statements below: the series handed to
  the observation loop (the sigmoid baseline after the phase constraints), and the
  observations as the loop reads them, \<open>zip(x_obs, y_obs)\<close>.
\<close>

definition constrained_baseline :: "real \<Rightarrow> real \<Rightarrow> int list \<Rightarrow> npfloat list" where
  "constrained_baseline peak_ndvi peak_day x_interp =
     map (\<lambda>(days, y). balanced_constrain (py_max_list x_interp) days y)
         (zip x_interp (map (sigmoid_baseline peak_ndvi peak_day) x_interp))"

definition observed_days :: "analyzer \<Rightarrow> (int \<times> real) list \<Rightarrow> (int \<times> real) list" where
  "observed_days self rows = map (\<lambda>(t, v). (t - sowing_date self, v)) rows"

definition balanced_interpolation :: "lib \<Rightarrow> analyzer \<Rightarrow> int list \<Rightarrow> error + npfloat list" where
  "balanced_interpolation L self x_interp =
     (case balanced_presmooth self x_interp of
        Inl e \<Rightarrow> Inl e
      | Inr y \<Rightarrow> Inr (gaussian_filter1d L y))"

text \<open>The blend of the physiological and sigmoid methods at an observed day.\<close>

definition blend_observation ::
  "real \<Rightarrow> real \<Rightarrow> int list \<Rightarrow> int \<times> real \<Rightarrow> npfloat list \<Rightarrow> npfloat list" where
  "blend_observation a b x_interp ob y =
     (case ob of (obs_day, obs_ndvi) \<Rightarrow>
        if obs_day \<in> set x_interp then
          (let idx = first_index x_interp obs_day
           in y[idx := np_add (Fin (a * obs_ndvi)) (np_mul (Fin b) (y ! idx))])
        else y)"

definition physiological_value :: "rng \<Rightarrow> int \<Rightarrow> nat \<Rightarrow> int \<Rightarrow> npfloat" where
  "physiological_value R max_x i days =
     (if days < emergence_day then Fin (0.05 + 0.02 * random_unit R i)
      else if days < tillering_start then
        Fin (0.05 + 0.15 * (real_of_int (days - emergence_day)
                              / real_of_int (tillering_start - emergence_day)))
      else if days < stem_elongation_start then
        Fin (0.20 + 0.25 * (real_of_int (days - tillering_start)
                              / real_of_int (stem_elongation_start - tillering_start)))
      else if days < booting_start then
        Fin (0.45 + 0.25 * (real_of_int (days - stem_elongation_start)
                              / real_of_int (booting_start - stem_elongation_start)))
      else if days < heading_start then
        Fin (0.70 + 0.15 * (real_of_int (days - booting_start)
                              / real_of_int (heading_start - booting_start)))
      else if days < flowering_start then
        Fin (0.85 + 0.05 * (real_of_int (days - heading_start)
                              / real_of_int (flowering_start - heading_start)))
      else if days < grain_filling_start then Fin (0.90 + 0.02 * random_unit R i)
      else if days < maturity_start then
        Fin (0.90 - 0.30 * (real_of_int (days - grain_filling_start)
                              / real_of_int (maturity_start - grain_filling_start)))
      else np_sub (Fin 0.60) (np_mul (Fin 0.50) (last_phase_progress max_x days)))"

definition physiological_interpolation :: "rng \<Rightarrow> analyzer \<Rightarrow> int list \<Rightarrow> npfloat list" where
  "physiological_interpolation R self x_interp =
     (let y0 = map (\<lambda>(i, days). physiological_value R (py_max_list x_interp) i days)
                   (zip [0..<length x_interp] x_interp)
      in fold (blend_observation 0.7 0.3 x_interp)
              (zip (days_after_sowing self) (ndvi_column self)) y0)"

definition sigmoid_interpolation :: "analyzer \<Rightarrow> int list \<Rightarrow> npfloat list" where
  "sigmoid_interpolation self x_interp =
     (let peak_ndvi = pd_max (ndvi_column self);
          y1 = map (\<lambda>x. np_div peak_ndvi (Fin (1 + exp (- 0.02 * real_of_int (x - 240)))))
                   x_interp;
          y2 = map (\<lambda>y. np_add (Fin 0.05)
                           (np_div (np_mul (np_sub peak_ndvi (Fin 0.05)) y) peak_ndvi)) y1
      in fold (blend_observation 0.8 0.2 x_interp)
              (zip (days_after_sowing self) (ndvi_column self)) y2)"

section \<open>Confidence intervals\<close>

text \<open>\<open>np.polyval\<close>: the coefficients come highest degree first.\<close>

definition polyval :: "real list \<Rightarrow> real \<Rightarrow> real" where
  "polyval coeffs x = fold (\<lambda>c acc. acc * x + c) coeffs 0"

text \<open>\<open>np.unique(x_boot, return_index=True)[1]\<close>: for each distinct value, in
  increasing order, the position of its first occurrence.\<close>

definition unique_indices :: "int list \<Rightarrow> nat list" where
  "unique_indices xs = map (first_index xs) (sort (remdups xs))"

text \<open>\<open>np.random.choice(n, n, replace=True)\<close>: \<open>n\<close> positions below \<open>n\<close>, drawn from
  the random source for trial \<open>t\<close>.\<close>

definition choice :: "rng \<Rightarrow> nat \<Rightarrow> nat \<Rightarrow> nat list" where
  "choice R t n = map (\<lambda>j. choice_raw R t j mod n) [0..<n]"

text \<open>One bootstrap trial: \<open>None\<close> when the trial is skipped, by the size test or by
  the \<open>except\<close> clause.\<close>

definition bootstrap_trial ::
  "lib \<Rightarrow> string \<Rightarrow> int list \<Rightarrow> real list \<Rightarrow> int list \<Rightarrow> nat list \<Rightarrow> npfloat list option" where
  "bootstrap_trial L method x_obs y_obs x_interp indices =
     (let x_boot = map (\<lambda>i. x_obs ! i) indices;
          y_boot = map (\<lambda>i. y_obs ! i) indices;
          uniq = unique_indices x_boot;
          x_boot_unique = map (\<lambda>i. x_boot ! i) uniq;
          y_boot_unique = map (\<lambda>i. y_boot ! i) uniq;
          pts = zip x_boot_unique y_boot_unique
      in if length x_boot_unique < 2 then None
         else if method = ''cubic'' \<and> 4 \<le> length x_boot_unique then
           map_option (\<lambda>f. map f x_interp) (interp1d_cubic L pts)
         else if method = ''polynomial'' \<and> 3 \<le> length x_boot_unique then
           map_option (\<lambda>coeffs. map (\<lambda>x. Fin (polyval coeffs (real_of_int x))) x_interp)
                      (polyfit L pts (min 2 (int (length x_boot_unique) - 1)))
         else map_option (\<lambda>f. map f x_interp) (interp1d_linear L pts))"

record intervals =
  lower :: "npfloat list"
  upper :: "npfloat list"

text \<open>
  The fallback branch reads \<open>y_interp\<close>, which is neither a parameter nor a local of
  this method nor a global of the module: reaching it raises \<open>NameError\<close>.
\<close>

definition calculate_confidence_intervals ::
  "lib \<Rightarrow> rng \<Rightarrow> int list \<Rightarrow> real list \<Rightarrow> int list \<Rightarrow> string \<Rightarrow> nat \<Rightarrow> error + intervals" where
  "calculate_confidence_intervals L R x_obs y_obs x_interp method n_bootstrap =
     (let bootstrap_predictions =
            List.map_filter
              (\<lambda>t. bootstrap_trial L method x_obs y_obs x_interp (choice R t (length x_obs)))
              [0..<n_bootstrap]
      in if bootstrap_predictions = [] then Inl (NameError ''y_interp'')
         else Inr \<lparr>lower = map (\<lambda>j. percentile L (map (\<lambda>p. p ! j) bootstrap_predictions) 2.5)
                               [0..<length x_interp],
                   upper = map (\<lambda>j. percentile L (map (\<lambda>p. p ! j) bootstrap_predictions) 97.5)
                               [0..<length x_interp]\<rparr>)"

section \<open>The daily series\<close>

definition reconstruct :: "lib \<Rightarrow> rng \<Rightarrow> string \<Rightarrow> analyzer \<Rightarrow> int list \<Rightarrow> error + npfloat list" where
  "reconstruct L R method self x_interp =
     (if method = ''balanced'' then balanced_interpolation L self x_interp
      else if method = ''physiological'' then Inr (physiological_interpolation R self x_interp)
      else if method = ''sigmoid'' then Inr (sigmoid_interpolation self x_interp)
      else
        (let pts = zip (days_after_sowing self) (ndvi_column self) in
         if method = ''cubic'' then
           (case interp1d_cubic L pts of
              None \<Rightarrow> Inl LibraryError | Some f \<Rightarrow> Inr (map f x_interp))
         else if method = ''polynomial'' then
           (case polyfit L pts (min 3 (int (length pts) - 1)) of
              None \<Rightarrow> Inl LibraryError
            | Some coeffs \<Rightarrow> Inr (map (\<lambda>x. Fin (polyval coeffs (real_of_int x))) x_interp))
         else
           (case interp1d_linear L pts of
              None \<Rightarrow> Inl LibraryError | Some f \<Rightarrow> Inr (map f x_interp))))"

definition interpolate_ndvi ::
  "lib \<Rightarrow> rng \<Rightarrow> string \<Rightarrow> analyzer \<Rightarrow> error + (daily \<times> analyzer)" where
  "interpolate_ndvi L R method self =
     (let date_range = [sowing_date self..harvest_date self];
          x_interp = map (\<lambda>d. d - sowing_date self) date_range
      in case reconstruct L R method self x_interp of
           Inl e \<Rightarrow> Inl e
         | Inr y0 \<Rightarrow>
            (let y_interp = map (\<lambda>v. np_clip v 0 1) y0 in
             case calculate_confidence_intervals L R (days_after_sowing self)
                    (ndvi_column self) x_interp method 1000 of
               Inl e \<Rightarrow> Inl e
             | Inr ci \<Rightarrow>
                (let lo = map (\<lambda>v. np_clip v 0 1) (lower ci);
                     up = map (\<lambda>v. np_clip v 0 1) (upper ci);
                     base = \<lparr>Date = date_range, Days_After_Sowing = x_interp,
                             NDVI_Interpolated = y_interp, NDVI_Lower_CI = lo,
                             NDVI_Upper_CI = up, FVC = None, Growth_Stage = None\<rparr>
                 in if ndvi_soil (fvc_params self) \<noteq> None then
                      (case calculate_fvc self y_interp of
                         Inl e \<Rightarrow> Inl e
                       | Inr fvc_interp \<Rightarrow>
                      (case calculate_fvc self lo of
                         Inl e \<Rightarrow> Inl e
                       | Inr fvc_lower_ci \<Rightarrow>
                      (case calculate_fvc self up of
                         Inl e \<Rightarrow> Inl e
                       | Inr fvc_upper_ci \<Rightarrow>
                          (let df = base\<lparr>FVC := Some
                                 \<lparr>FVC_Interpolated = fvc_interp,
                                  FVC_Lower_CI = fvc_lower_ci,
                                  FVC_Upper_CI = fvc_upper_ci,
                                  Ground_Cover_Percentage =
                                    calculate_ground_cover_percentage fvc_interp,
                                  Ground_Cover_Lower_CI =
                                    calculate_ground_cover_percentage fvc_lower_ci,
                                  Ground_Cover_Upper_CI =
                                    calculate_ground_cover_percentage fvc_upper_ci\<rparr>\<rparr>
                           in Inr (df, self\<lparr>daily_ndvi := Some df\<rparr>)))))
                    else Inr (base, self\<lparr>daily_ndvi := Some base\<rparr>))))"

section \<open>Growth stages\<close>

text \<open>\<open>idxmax\<close> skips NaN and returns the first position of the greatest value; it
  raises when there is none.\<close>

fun greater_np :: "npfloat \<Rightarrow> npfloat \<Rightarrow> bool" where
  "greater_np NaN _ = False"
| "greater_np _ NaN = True"
| "greater_np PInf b = (b \<noteq> PInf)"
| "greater_np NInf b = False"
| "greater_np (Fin a) (Fin b) = (b < a)"
| "greater_np (Fin a) PInf = False"
| "greater_np (Fin a) NInf = True"

definition idxmax :: "npfloat list \<Rightarrow> nat option" where
  "idxmax vs =
     fold (\<lambda>i best. if vs ! i = NaN then best
                     else (case best of None \<Rightarrow> Some i
                           | Some b \<Rightarrow> if greater_np (vs ! i) (vs ! b) then Some i else Some b))
          [0..<length vs] None"

definition growth_stage_dates :: "int \<Rightarrow> int \<Rightarrow> int \<Rightarrow> (string \<times> int) list" where
  "growth_stage_dates sowing harvest peak_date =
     [(''Sowing'', sowing),
      (''Emergence'', sowing + 10),
      (''Tillering'', sowing + 45),
      (''Stem Elongation'', sowing + 120),
      (''Booting'', peak_date - 20),
      (''Heading'', peak_date - 10),
      (''Flowering'', peak_date),
      (''Grain Filling'', peak_date + 15),
      (''Maturity'', harvest - 25),
      (''Harvest'', harvest)]"

text \<open>The mask of one stage on one date of the daily series.\<close>

definition stage_mask :: "(string \<times> int) list \<Rightarrow> int \<Rightarrow> string \<times> int \<Rightarrow> int \<Rightarrow> bool" where
  "stage_mask gsd harvest sd d =
     (case sd of (stage, date) \<Rightarrow>
        if stage \<noteq> ''Harvest'' then
          (let next_stages = filter (\<lambda>(s, a). date < a) gsd in
           case map snd next_stages of
             [] \<Rightarrow> date \<le> d \<and> d \<le> harvest
           | a # r \<Rightarrow> date \<le> d \<and> d < fold min r a)
        else d = date)"

definition assign_stage :: "(string \<times> int) list \<Rightarrow> int \<Rightarrow> int \<Rightarrow> string \<times> int \<Rightarrow> string \<Rightarrow> string" where
  "assign_stage gsd harvest d sd label = (if stage_mask gsd harvest sd d then fst sd else label)"

definition label_dates :: "(string \<times> int) list \<Rightarrow> int \<Rightarrow> int list \<Rightarrow> string list" where
  "label_dates gsd harvest dates =
     fold (\<lambda>sd labels. map (\<lambda>(d, l). assign_stage gsd harvest d sd l) (zip dates labels))
          gsd (replicate (length dates) ''Unknown'')"

definition estimate_growth_stages ::
  "analyzer \<Rightarrow> error + ((string \<times> int) list \<times> analyzer)" where
  "estimate_growth_stages self =
     (case daily_ndvi self of
        None \<Rightarrow> Inl (AttributeError ''daily_ndvi'')
      | Some df \<Rightarrow>
         (case idxmax (NDVI_Interpolated df) of
            None \<Rightarrow> Inl (ValueError ''attempt to get argmax of an empty sequence'')
          | Some peak_idx \<Rightarrow>
             (let peak_date = Date df ! peak_idx;
                  gsd = growth_stage_dates (sowing_date self) (harvest_date self) peak_date;
                  labels = label_dates gsd (harvest_date self) (Date df)
              in Inr (gsd, self\<lparr>daily_ndvi := Some (df\<lparr>Growth_Stage := Some labels\<rparr>)\<rparr>))))"

section \<open>An example session\<close>

text \<open>A three-day season with its daily series, used to instantiate the results below.\<close>

definition demo_series :: daily where
  "demo_series =
     \<lparr>Date = [0, 1, 2], Days_After_Sowing = [0, 1, 2],
      NDVI_Interpolated = [Fin 0.1, Fin 0.9, Fin 0.3],
      NDVI_Lower_CI = [Fin 0.1, Fin 0.8, Fin 0.2],
      NDVI_Upper_CI = [Fin 0.2, Fin 1, Fin 0.4],
      FVC = None, Growth_Stage = None\<rparr>"

definition demo_session :: analyzer where
  "demo_session =
     \<lparr>sowing_date = 0, harvest_date = 2, ndvi_data = [(0, 0.1), (1, 0.9)],
      fvc_params = \<lparr>ndvi_soil = None, ndvi_vegetation = None\<rparr>,
      daily_ndvi = Some demo_series\<rparr>"

section \<open>Properties of the index normaliser\<close>

lemma fvc_value_fin:
  "vegetation \<noteq> soil \<Longrightarrow>
   fvc_value (Fin soil) (Fin vegetation) (Fin v) =
     Fin (min (max ((v - soil) / (vegetation - soil)) 0) 1)"
  by (simp add: fvc_value_def np_sub_def)

text \<open>
  Claim C10. While both reference values are still unset, as they are in a freshly
  created analyzer, \<open>calculate_fvc\<close> raises the \<open>ValueError\<close> of its guard for every
  input and computes nothing.
\<close>

theorem calculate_fvc_unset_fails:
  "ndvi_soil (fvc_params self) = None \<and> ndvi_vegetation (fvc_params self) = None \<Longrightarrow>
   calculate_fvc self ndvi_values =
     Inl (ValueError ''FVC parameters not estimated. Call estimate_fvc_parameters() first.'')"
  by (simp add: calculate_fvc_def)

theorem calculate_fvc_unset_fails_witness:
  "calculate_fvc (new_analyzer [(5, 0.2), (130, 0.8)] 0 300) [Fin 0.5] =
     Inl (ValueError ''FVC parameters not estimated. Call estimate_fvc_parameters() first.'')"
  using calculate_fvc_unset_fails [of "new_analyzer [(5, 0.2), (130, 0.8)] 0 300" "[Fin 0.5]"]
  by (simp add: new_analyzer_def)

text \<open>
  Claim C1, as stated, fails: the normaliser has no test on the order of the two
  reference values. With soil 0.97 and vegetation 0.95 (what the data-driven policy
  returns when every observation is 0.99) the index value 0.96 is mapped to the cover
  fraction 0.5 without any error.
\<close>

theorem calculate_fvc_degenerate_counterexample:
  "(0.95::real) \<le> 0.97 \<and>
   calculate_fvc
     \<lparr>sowing_date = 0, harvest_date = 300, ndvi_data = [(100, 0.99)],
      fvc_params = \<lparr>ndvi_soil = Some (Fin 0.97), ndvi_vegetation = Some (Fin 0.95)\<rparr>,
      daily_ndvi = None\<rparr> [Fin 0.96] = Inr [Fin 0.5]"
  by (simp add: calculate_fvc_def fvc_value_def np_sub_def)

text \<open>
  Claim C1, amended. When both reference values are set and the vegetation value is
  strictly below the soil value, \<open>calculate_fvc\<close> raises no error: it returns, for each
  index value, the finite clipped quotient \<open>clip((v - soil) / (vegetation - soil), 0, 1)\<close>,
  which lies in the unit interval. Equal reference values are left out of the statement.
\<close>

theorem calculate_fvc_degenerate_computes:
  assumes "ndvi_soil (fvc_params self) = Some (Fin soil)"
      and "ndvi_vegetation (fvc_params self) = Some (Fin vegetation)"
      and "vegetation < soil"
  shows "calculate_fvc self (map Fin vs) =
           Inr (map (\<lambda>v. Fin (min (max ((v - soil) / (vegetation - soil)) 0) 1)) vs) \<and>
         list_all in_unit (map (\<lambda>v. Fin (min (max ((v - soil) / (vegetation - soil)) 0) 1)) vs)"
  using assms by (auto simp: calculate_fvc_def fvc_value_fin list_all_iff)

theorem calculate_fvc_degenerate_computes_witness:
  "calculate_fvc
      \<lparr>sowing_date = 0, harvest_date = 300, ndvi_data = [(100, 0.99)],
       fvc_params = \<lparr>ndvi_soil = Some (Fin 0.97), ndvi_vegetation = Some (Fin 0.95)\<rparr>,
       daily_ndvi = None\<rparr> (map Fin [0.96, 0.2]) = Inr [Fin 0.5, Fin 1] \<and>
   list_all in_unit [Fin 0.5, Fin 1]"
  using calculate_fvc_degenerate_computes
    [of "\<lparr>sowing_date = 0, harvest_date = 300, ndvi_data = [(100, 0.99)],
          fvc_params = \<lparr>ndvi_soil = Some (Fin 0.97), ndvi_vegetation = Some (Fin 0.95)\<rparr>,
          daily_ndvi = None\<rparr>" "0.97" "0.95" "[0.96, 0.2]"]
  by simp

text \<open>
  With equal reference values the quotient divides by zero: the index value equal to
  them is mapped to NaN, the others to 1 or 0.
\<close>

lemma calculate_fvc_equal_references:
  "calculate_fvc
      \<lparr>sowing_date = 0, harvest_date = 300, ndvi_data = [(5, 0.6), (100, 0.6)],
       fvc_params = \<lparr>ndvi_soil = Some (Fin 0.6), ndvi_vegetation = Some (Fin 0.6)\<rparr>,
       daily_ndvi = None\<rparr> [Fin 0.6, Fin 0.7, Fin 0.2] = Inr [NaN, Fin 1, Fin 0]"
  by (simp add: calculate_fvc_def fvc_value_def np_sub_def np_inf_def)

text \<open>
  Claim C8. For fixed reference values with the vegetation value above the soil value,
  the cover fraction is a finite number and is monotone non-decreasing in the index value.
\<close>

theorem cover_fraction_monotone:
  assumes "ndvi_soil (fvc_params self) = Some (Fin soil)"
      and "ndvi_vegetation (fvc_params self) = Some (Fin vegetation)"
      and "soil < vegetation" and "v1 \<le> v2"
  shows "\<exists>f1 f2. calculate_fvc self [Fin v1] = Inr [Fin f1] \<and>
                 calculate_fvc self [Fin v2] = Inr [Fin f2] \<and> f1 \<le> f2"
proof -
  have d: "0 < vegetation - soil" using assms(3) by simp
  have "(v1 - soil) / (vegetation - soil) \<le> (v2 - soil) / (vegetation - soil)"
    using d assms(4) by (simp add: divide_right_mono)
  then have "min (max ((v1 - soil) / (vegetation - soil)) 0) 1
               \<le> min (max ((v2 - soil) / (vegetation - soil)) 0) 1"
    by (auto simp: min_def max_def)
  then show ?thesis using assms(1,2,3) by (simp add: calculate_fvc_def fvc_value_fin)
qed

theorem cover_fraction_monotone_witness:
  "\<exists>f1 f2.
     calculate_fvc
       \<lparr>sowing_date = 0, harvest_date = 300, ndvi_data = [],
        fvc_params = \<lparr>ndvi_soil = Some (Fin 0.15), ndvi_vegetation = Some (Fin 0.85)\<rparr>,
        daily_ndvi = None\<rparr> [Fin 0.3] = Inr [Fin f1] \<and>
     calculate_fvc
       \<lparr>sowing_date = 0, harvest_date = 300, ndvi_data = [],
        fvc_params = \<lparr>ndvi_soil = Some (Fin 0.15), ndvi_vegetation = Some (Fin 0.85)\<rparr>,
        daily_ndvi = None\<rparr> [Fin 0.6] = Inr [Fin f2] \<and> f1 \<le> f2"
  using cover_fraction_monotone
    [of "\<lparr>sowing_date = 0, harvest_date = 300, ndvi_data = [],
          fvc_params = \<lparr>ndvi_soil = Some (Fin 0.15), ndvi_vegetation = Some (Fin 0.85)\<rparr>,
          daily_ndvi = None\<rparr>" "0.15" "0.85" "0.3" "0.6"]
  by simp

section \<open>Properties of the parameter estimator\<close>

lemma fold_min_Min: "fold min r (v::real) = Min (set (v # r))"
  by (metis Min.set_eq_fold)

lemma fold_max_Max: "fold max r (v::real) = Max (set (v # r))"
  by (metis Max.set_eq_fold)

lemma data_driven_result:
  assumes "ndvi_data self \<noteq> []"
  shows "estimate_fvc_parameters ''data_driven'' self =
     Inr (\<lparr>ndvi_soil = Some (Fin (max 0.05 (Min (set (ndvi_column self)) - 0.02))),
           ndvi_vegetation = Some (Fin (min 0.95 (Max (set (ndvi_column self)) + 0.02)))\<rparr>,
          self\<lparr>fvc_params :=
            \<lparr>ndvi_soil = Some (Fin (max 0.05 (Min (set (ndvi_column self)) - 0.02))),
             ndvi_vegetation = Some (Fin (min 0.95 (Max (set (ndvi_column self)) + 0.02)))\<rparr>\<rparr>)"
proof -
  obtain v r where vr: "ndvi_column self = v # r"
    using assms by (cases "ndvi_column self") (auto simp: ndvi_column_def)
  show ?thesis
    unfolding estimate_fvc_parameters_def vr pd_min_def pd_max_def
    by (simp add: np_sub_def fold_min_Min fold_max_Max Let_def max_def min_def
             del: set_simps Min_insert Max_insert)
qed

text \<open>
  Claim C7. On a non-empty observation sequence the data-driven (extremal) policy returns
  soil = max(0.05, min(observed) - 0.02) and vegetation = min(0.95, max(observed) + 0.02),
  and stores them in the session; with observed minimum 0.10 and maximum 0.90 these are
  0.08 and 0.92.
\<close>

theorem data_driven_parameters:
  assumes "ndvi_data self \<noteq> []"
  shows "(\<exists>self'. estimate_fvc_parameters ''data_driven'' self =
            Inr (\<lparr>ndvi_soil = Some (Fin (max 0.05 (Min (set (ndvi_column self)) - 0.02))),
                  ndvi_vegetation = Some (Fin (min 0.95 (Max (set (ndvi_column self)) + 0.02)))\<rparr>,
                 self')) \<and>
         (Min (set (ndvi_column self)) = 0.10 \<and> Max (set (ndvi_column self)) = 0.90 \<longrightarrow>
            (\<exists>self'. estimate_fvc_parameters ''data_driven'' self =
               Inr (\<lparr>ndvi_soil = Some (Fin 0.08), ndvi_vegetation = Some (Fin 0.92)\<rparr>, self')))"
proof -
  note r = data_driven_result [OF assms]
  have "max (0.05::real) (0.10 - 0.02) = 0.08" and "min (0.95::real) (0.90 + 0.02) = 0.92"
    by simp_all
  then show ?thesis unfolding r by auto
qed

theorem data_driven_parameters_witness:
  "\<exists>self'. estimate_fvc_parameters ''data_driven''
       (new_analyzer [(5, 0.10), (100, 0.5), (200, 0.90)] 0 300) =
     Inr (\<lparr>ndvi_soil = Some (Fin 0.08), ndvi_vegetation = Some (Fin 0.92)\<rparr>, self')"
  using data_driven_parameters [of "new_analyzer [(5, 0.10), (100, 0.5), (200, 0.90)] 0 300"]
  by (simp add: new_analyzer_def ndvi_column_def)

lemma estimate_ignores_params:
  "estimate_fvc_parameters method (self\<lparr>fvc_params := q\<rparr>) =
     map_sum id (\<lambda>(p', s). (p', s\<lparr>fvc_params := p'\<rparr>)) (estimate_fvc_parameters method self)"
  unfolding estimate_fvc_parameters_def Let_def days_after_sowing_def ndvi_column_def
  by simp

lemma estimate_result_state:
  assumes "estimate_fvc_parameters method self = Inr (p, self')"
  shows "self' = self\<lparr>fvc_params := p\<rparr>"
proof -
  have "\<exists>q. estimate_fvc_parameters method self = Inr (q, self\<lparr>fvc_params := q\<rparr>)
        \<or> (\<exists>e. estimate_fvc_parameters method self = Inl e)"
    unfolding estimate_fvc_parameters_def Let_def by simp
  with assms show ?thesis by auto
qed

lemma seasonal_example:
  "estimate_fvc_parameters ''seasonal'' (new_analyzer [(5, 0.2), (20, 0.1), (100, 0.8)] 0 300) =
     Inr (\<lparr>ndvi_soil = Some (Fin 0.125), ndvi_vegetation = Some (Fin 0.8)\<rparr>,
          (new_analyzer [(5, 0.2), (20, 0.1), (100, 0.8)] 0 300)
            \<lparr>fvc_params := \<lparr>ndvi_soil = Some (Fin 0.125), ndvi_vegetation = Some (Fin 0.8)\<rparr>\<rparr>)"
  by (simp add: estimate_fvc_parameters_def new_analyzer_def days_after_sowing_def
        ndvi_column_def pd_quantile_def Let_def)

text \<open>
  Claim C9. The parameter estimator is a function of the policy and of the session's
  observations and season start only: a second call with the same policy, on the session
  left by the first call, returns the same parameters and leaves the session unchanged.
\<close>

theorem estimate_fvc_parameters_idempotent:
  "estimate_fvc_parameters method self = Inr (p, self') \<Longrightarrow>
   estimate_fvc_parameters method self' = Inr (p, self')"
proof -
  assume a: "estimate_fvc_parameters method self = Inr (p, self')"
  have s: "self' = self\<lparr>fvc_params := p\<rparr>" using a by (rule estimate_result_state)
  show ?thesis
    unfolding s estimate_ignores_params a by simp
qed

theorem estimate_fvc_parameters_idempotent_witness:
  "estimate_fvc_parameters ''seasonal''
     ((new_analyzer [(5, 0.2), (20, 0.1), (100, 0.8)] 0 300)
        \<lparr>fvc_params := \<lparr>ndvi_soil = Some (Fin 0.125), ndvi_vegetation = Some (Fin 0.8)\<rparr>\<rparr>) =
   Inr (\<lparr>ndvi_soil = Some (Fin 0.125), ndvi_vegetation = Some (Fin 0.8)\<rparr>,
        (new_analyzer [(5, 0.2), (20, 0.1), (100, 0.8)] 0 300)
          \<lparr>fvc_params := \<lparr>ndvi_soil = Some (Fin 0.125), ndvi_vegetation = Some (Fin 0.8)\<rparr>\<rparr>)"
  using estimate_fvc_parameters_idempotent [OF seasonal_example] .

section \<open>Properties of the confidence intervals and of sparse data\<close>


lemma length_unique_indices: "length (unique_indices xs) \<le> length xs"
  by (simp add: unique_indices_def)

lemma bootstrap_trial_sparse:
  assumes "length x_obs \<le> 1"
  shows "bootstrap_trial L method x_obs y_obs x_interp (choice R t (length x_obs)) = None"
proof -
  let ?ind = "choice R t (length x_obs)"
  let ?xb = "map (\<lambda>i. x_obs ! i) ?ind"
  have "length (unique_indices ?xb) \<le> length ?xb" by (rule length_unique_indices)
  also have "\<dots> = length x_obs" by (simp add: choice_def)
  finally have "length (map (\<lambda>i. ?xb ! i) (unique_indices ?xb)) < 2"
    using assms by simp
  then show ?thesis
    unfolding bootstrap_trial_def Let_def by (simp only: if_True)
qed

lemma map_filter_all_None: "(\<And>x. x \<in> set xs \<Longrightarrow> f x = None) \<Longrightarrow> List.map_filter f xs = []"
  by (induction xs) (simp_all add: List.map_filter_simps)

lemma fallback_when_no_trial:
  "(\<forall>t < n_bootstrap.
      bootstrap_trial L method x_obs y_obs x_interp (choice R t (length x_obs)) = None) \<Longrightarrow>
   calculate_confidence_intervals L R x_obs y_obs x_interp method n_bootstrap =
     Inl (NameError ''y_interp'')"
proof -
  assume a: "\<forall>t < n_bootstrap.
      bootstrap_trial L method x_obs y_obs x_interp (choice R t (length x_obs)) = None"
  have "List.map_filter
          (\<lambda>t. bootstrap_trial L method x_obs y_obs x_interp (choice R t (length x_obs)))
          [0..<n_bootstrap] = []"
    by (rule map_filter_all_None) (use a in simp)
  then show ?thesis
    unfolding calculate_confidence_intervals_def Let_def by simp
qed

lemma ci_sparse:
  "length x_obs \<le> 1 \<Longrightarrow>
   calculate_confidence_intervals L R x_obs y_obs x_interp method n = Inl (NameError ''y_interp'')"
  by (rule fallback_when_no_trial) (simp add: bootstrap_trial_sparse)

lemma interpolate_sparse:
  assumes "length (ndvi_data self) \<le> 1"
  shows "interpolate_ndvi L R method self =
     (case reconstruct L R method self
             (map (\<lambda>d. d - sowing_date self) [sowing_date self..harvest_date self]) of
        Inl e \<Rightarrow> Inl e | Inr y \<Rightarrow> Inl (NameError ''y_interp''))"
proof -
  have "length (days_after_sowing self) \<le> 1"
    using assms by (simp add: days_after_sowing_def)
  then have ci: "calculate_confidence_intervals L R (days_after_sowing self) (ndvi_column self) xs method 1000
     = Inl (NameError ''y_interp'')" for xs
    by (rule ci_sparse)
  show ?thesis
    unfolding interpolate_ndvi_def Let_def ci
    by (simp split: sum.splits)
qed

lemma balanced_one: "\<exists>y. reconstruct L R ''balanced'' (self\<lparr>ndvi_data := [ob]\<rparr>) xs = Inr y"
  by (simp add: reconstruct_def balanced_interpolation_def balanced_presmooth_def ndvi_column_def Let_def)

lemma balanced_zero: "\<exists>msg. reconstruct L R ''balanced'' (self\<lparr>ndvi_data := []\<rparr>) xs = Inl (ValueError msg)"
  by (simp add: reconstruct_def balanced_interpolation_def balanced_presmooth_def ndvi_column_def Let_def)

lemma sigmoid_any: "\<exists>y. reconstruct L R ''sigmoid'' self xs = Inr y"
  by (simp add: reconstruct_def)

text \<open>
  Claim C2. When no bootstrap trial succeeds, the method reaches its fallback branch, which
  is written to return the primary series scaled by 0.95 and 1.05 but reads a name that
  does not exist in its scope: the call raises \<open>NameError\<close> instead of returning bounds.
  A single observation (day 121, value 0.85) is such an input, for every library, random
  source, season and method.
\<close>

theorem confidence_fallback_raises:
  "(\<forall>t < n_bootstrap.
      bootstrap_trial L method x_obs y_obs x_interp (choice R t (length x_obs)) = None) \<Longrightarrow>
   calculate_confidence_intervals L R x_obs y_obs x_interp method n_bootstrap =
     Inl (NameError ''y_interp'')"
  by (rule fallback_when_no_trial)

theorem confidence_fallback_raises_witness:
  "\<forall>L R x_interp method.
     calculate_confidence_intervals L R [121] [0.85] x_interp method 1000 =
       Inl (NameError ''y_interp'')"
proof (intro allI)
  fix L R x_interp meth
  have "\<forall>t < 1000.
          bootstrap_trial L meth [121] [0.85] x_interp (choice R t (length [121::int])) = None"
    using bootstrap_trial_sparse [of "[121]" L meth "[0.85]" x_interp R] by simp
  then show "calculate_confidence_intervals L R [121] [0.85] x_interp meth 1000 =
       Inl (NameError ''y_interp'')"
    by (rule confidence_fallback_raises)
qed

text \<open>
  Claim C6. With exactly one observation the balanced (guided) and sigmoid (logistic)
  reconstructions themselves succeed, but \<open>interpolate_ndvi\<close> then raises \<open>NameError\<close>
  from the confidence-interval fallback instead of returning a degraded series; with no
  observation the sigmoid method ends the same way and the balanced method raises
  \<open>ValueError\<close>. Every method, the numeric fits included, ends in an error on zero or
  one observation.
\<close>

theorem sparse_observations_fail:
  "interpolate_ndvi L R ''balanced'' (self\<lparr>ndvi_data := [ob]\<rparr>) = Inl (NameError ''y_interp'') \<and>
   interpolate_ndvi L R ''sigmoid'' (self\<lparr>ndvi_data := [ob]\<rparr>) = Inl (NameError ''y_interp'') \<and>
   interpolate_ndvi L R ''sigmoid'' (self\<lparr>ndvi_data := []\<rparr>) = Inl (NameError ''y_interp'') \<and>
   (\<exists>msg. interpolate_ndvi L R ''balanced'' (self\<lparr>ndvi_data := []\<rparr>) = Inl (ValueError msg)) \<and>
   (\<exists>e. interpolate_ndvi L R method (self\<lparr>ndvi_data := [ob]\<rparr>) = Inl e) \<and>
   (\<exists>e. interpolate_ndvi L R method (self\<lparr>ndvi_data := []\<rparr>) = Inl e)"
proof -
  have l1: "length (ndvi_data (self\<lparr>ndvi_data := [ob]\<rparr>)) \<le> 1" by simp
  have l0: "length (ndvi_data (self\<lparr>ndvi_data := []\<rparr>)) \<le> 1" by simp
  note i1 = interpolate_sparse [OF l1] and i0 = interpolate_sparse [OF l0]
  have a: "interpolate_ndvi L R ''balanced'' (self\<lparr>ndvi_data := [ob]\<rparr>) = Inl (NameError ''y_interp'')"
    using balanced_one [where self=self and ob=ob and L=L and R=R] unfolding i1 by (metis sum.simps(6))
  have b: "interpolate_ndvi L R ''sigmoid'' (self\<lparr>ndvi_data := [ob]\<rparr>) = Inl (NameError ''y_interp'')"
    using sigmoid_any [where L=L and R=R and self="self\<lparr>ndvi_data := [ob]\<rparr>"] unfolding i1 by (metis sum.simps(6))
  have c: "interpolate_ndvi L R ''sigmoid'' (self\<lparr>ndvi_data := []\<rparr>) = Inl (NameError ''y_interp'')"
    using sigmoid_any [where L=L and R=R and self="self\<lparr>ndvi_data := []\<rparr>"] unfolding i0 by (metis sum.simps(6))
  have d: "\<exists>msg. interpolate_ndvi L R ''balanced'' (self\<lparr>ndvi_data := []\<rparr>) = Inl (ValueError msg)"
    using balanced_zero [where L=L and R=R and self=self] unfolding i0 by (metis sum.simps(5))
  have e: "\<exists>e. interpolate_ndvi L R method (self\<lparr>ndvi_data := [ob]\<rparr>) = Inl e"
    unfolding i1 by (simp split: sum.splits)
  have f: "\<exists>e. interpolate_ndvi L R method (self\<lparr>ndvi_data := []\<rparr>) = Inl e"
    unfolding i0 by (simp split: sum.splits)
  from a b c d e f show ?thesis by blast
qed

section \<open>Properties of the balanced reconstruction\<close>


lemma np_add_NaN_right: "np_add x NaN = NaN" by (cases x) simp_all
lemma np_mul_NaN_right: "np_mul x NaN = NaN" by (cases x) simp_all
lemma blend_NaN_target: "blend w y NaN = NaN"
  by (simp add: blend_def np_mul_NaN_right np_add_NaN_right)

lemma balanced_constrain_degenerate:
  "balanced_constrain maturity_start maturity_start y = NaN"
  by (simp add: balanced_constrain_def last_phase_progress_def maturity_start_def
        emergence_day_def tillering_start_def stem_elongation_start_def booting_start_def
        flowering_start_def grain_filling_start_def np_sub_def np_mul_NaN_right blend_NaN_target)

lemma first_index_less: "v \<in> set xs \<Longrightarrow> first_index xs v < length xs"
  by (induction xs) (auto simp: first_index_def)

lemma first_index_nth: "v \<in> set xs \<Longrightarrow> xs ! first_index xs v = v"
  by (induction xs) (auto simp: first_index_def)

lemma length_pull_point [simp]: "length (pull_point y idx obs) = length y"
  by (simp add: pull_point_def)

lemma length_pull_nearby [simp]: "length (pull_nearby xs d obs idx y) = length xs"
  by (simp add: pull_nearby_def)

lemma length_apply_observation:
  "length y = length xs \<Longrightarrow> length (apply_observation xs ob y) = length xs"
  by (cases ob) (simp add: apply_observation_def Let_def)

lemma length_fold_apply_observation:
  "length y = length xs \<Longrightarrow> length (fold (apply_observation xs) obs y) = length xs"
  by (induction obs arbitrary: y) (simp_all add: length_apply_observation)

lemma pull_nearby_at_idx:
  "idx < length xs \<Longrightarrow> pull_nearby xs d obs idx y ! idx = y ! idx"
  by (simp add: pull_nearby_def)

lemma pull_point_at_idx:
  "idx < length y \<Longrightarrow>
   pull_point y idx obs ! idx = np_add (Fin (0.9 * obs)) (np_mul (Fin 0.1) (y ! idx))"
  by (simp add: pull_point_def)

lemma apply_observation_at_idx:
  assumes "d \<in> set xs" "length y = length xs"
  shows "apply_observation xs (d, obs) y ! first_index xs d =
           np_add (Fin (0.9 * obs)) (np_mul (Fin 0.1) (y ! first_index xs d))"
  using assms first_index_less [OF assms(1)]
  by (simp add: apply_observation_def Let_def pull_nearby_at_idx pull_point_at_idx)

lemma apply_observation_keeps_NaN:
  assumes "length y = length xs" "i < length xs" "y ! i = NaN"
  shows "apply_observation xs ob y ! i = NaN"
proof (cases ob)
  case (Pair d obs)
  show ?thesis
  proof (cases "d \<in> set xs")
    case False
    then show ?thesis using assms Pair by (simp add: apply_observation_def)
  next
    case True
    let ?idx = "first_index xs d"
    let ?y1 = "pull_point y ?idx obs"
    have p: "?y1 ! i = NaN"
      using assms by (cases "i = ?idx")
        (simp_all add: pull_point_def np_mul_NaN_right np_add_NaN_right)
    have "pull_nearby xs d obs ?idx ?y1 ! i = NaN"
    proof (cases "i = ?idx")
      case True
      then show ?thesis using assms(2) p by (simp add: pull_nearby_at_idx)
    next
      case False
      then show ?thesis
        unfolding pull_nearby_def using assms(2) p
        by (simp add: Let_def np_mul_NaN_right)
    qed
    then show ?thesis
      using True Pair by (simp add: apply_observation_def Let_def)
  qed
qed

lemma fold_apply_observation_keeps_NaN:
  "length y = length xs \<Longrightarrow> i < length xs \<Longrightarrow> y ! i = NaN \<Longrightarrow>
   fold (apply_observation xs) obs y ! i = NaN"
  by (induction obs arbitrary: y)
     (simp_all add: length_apply_observation apply_observation_keeps_NaN)

lemma fold_max_Max_int: "fold max r (v::int) = Max (set (v # r))"
  by (metis Max.set_eq_fold)

lemma offsets_set: "set (map (\<lambda>d. d - s) [s..s + n]) = {0..n::int}"
proof -
  have "(\<lambda>d. d - s) ` {s..s + n} = {0..n}"
  proof (rule set_eqI)
    fix x show "x \<in> (\<lambda>d. d - s) ` {s..s + n} \<longleftrightarrow> x \<in> {0..n}"
    proof
      assume "x \<in> (\<lambda>d. d - s) ` {s..s + n}" then show "x \<in> {0..n}" by auto
    next
      assume "x \<in> {0..n}"
      then have "x + s \<in> {s..s + n}" and "x = (x + s) - s" by auto
      then show "x \<in> (\<lambda>d. d - s) ` {s..s + n}" by (rule_tac rev_image_eqI)
    qed
  qed
  then show ?thesis by simp
qed

lemma py_max_list_offsets:
  assumes "0 \<le> n"
  shows "py_max_list (map (\<lambda>d. d - s) [s..s + n]) = n"
proof -
  let ?xs = "map (\<lambda>d. d - s) [s..s + n]"
  have ne: "?xs \<noteq> []" using assms by simp
  then obtain x r where xr: "?xs = x # r" by (cases ?xs) auto
  have "py_max_list ?xs = Max (set ?xs)"
    unfolding xr py_max_list_def by (simp only: list.case fold_max_Max_int)
  also have "\<dots> = Max {0..n}" by (simp only: offsets_set)
  also have "\<dots> = n" using assms by (intro Max_eqI) auto
  finally show ?thesis .
qed

lemma presmooth_season_270:
  assumes "ndvi_data self \<noteq> []" and "harvest_date self = sowing_date self + 270"
  shows "\<exists>y. balanced_presmooth self
               (map (\<lambda>d. d - sowing_date self) [sowing_date self..harvest_date self]) = Inr y \<and>
             length y = 271 \<and> y ! 270 = NaN"
proof -
  let ?s = "sowing_date self"
  let ?xs = "map (\<lambda>d. d - ?s) [?s..?s + 270]"
  obtain v r where vr: "ndvi_column self = v # r"
    using assms(1) by (cases "ndvi_column self") (auto simp: ndvi_column_def)
  have len: "length ?xs = 271" by simp
  have last: "?xs ! 270 = 270" by simp
  have mx: "py_max_list ?xs = 270" by (rule py_max_list_offsets) simp
  define base where "base = map (sigmoid_baseline (fold max r v)
      (real_of_int (sum_list (days_after_sowing self)) / real (length (days_after_sowing self)))) ?xs"
  define con where "con = map (\<lambda>(days, y). balanced_constrain (py_max_list ?xs) days y) (zip ?xs base)"
  have lb: "length base = 271" unfolding base_def by simp
  have lc: "length con = length ?xs" unfolding con_def using lb by simp
  have "con ! 270 = balanced_constrain 270 (?xs ! 270) (base ! 270)"
    unfolding con_def using lb len by (simp add: mx)
  then have cn: "con ! 270 = NaN"
    using balanced_constrain_degenerate by (simp add: last maturity_start_def)
  let ?y = "fold (apply_observation ?xs) (zip (days_after_sowing self) (ndvi_column self)) con"
  have r: "balanced_presmooth self ?xs = Inr ?y"
    unfolding balanced_presmooth_def Let_def con_def base_def vr by simp
  have "length ?y = 271" using length_fold_apply_observation [OF lc] by simp
  moreover have "?y ! 270 = NaN"
    by (rule fold_apply_observation_keeps_NaN [OF lc _ cn]) simp
  ultimately show ?thesis using r assms(2) by simp
qed

lemma interpolate_series:
  assumes "interpolate_ndvi L R method self = Inr (df, self')"
  shows "\<exists>y0. reconstruct L R method self
                (map (\<lambda>d. d - sowing_date self) [sowing_date self..harvest_date self]) = Inr y0 \<and>
              NDVI_Interpolated df = map (\<lambda>v. np_clip v 0 1) y0"
proof -
  let ?xs = "map (\<lambda>d. d - sowing_date self) [sowing_date self..harvest_date self]"
  obtain y0 where y0: "reconstruct L R method self ?xs = Inr y0"
    using assms unfolding interpolate_ndvi_def Let_def
    by (cases "reconstruct L R method self ?xs") simp_all
  obtain ci where ci: "calculate_confidence_intervals L R (days_after_sowing self)
                         (ndvi_column self) ?xs method 1000 = Inr ci"
    using assms y0 unfolding interpolate_ndvi_def Let_def
    by (cases "calculate_confidence_intervals L R (days_after_sowing self)
                 (ndvi_column self) ?xs method 1000") simp_all
  have "NDVI_Interpolated df = map (\<lambda>v. np_clip v 0 1) y0"
    using assms unfolding interpolate_ndvi_def Let_def y0 ci
    by (auto split: if_splits sum.splits)
  then show ?thesis using y0 by simp
qed

lemma balanced_pipeline_season_270:
  assumes "ndvi_data self \<noteq> []" and "harvest_date self = sowing_date self + 270"
      and run: "interpolate_ndvi L R ''balanced'' self = Inr (df, self')"
      and keeps: "\<And>y i. i < length y \<Longrightarrow> y ! i = NaN \<Longrightarrow>
                    i < length (gaussian_filter1d L y) \<and> gaussian_filter1d L y ! i = NaN"
  shows "NDVI_Interpolated df ! 270 = NaN \<and> \<not> in_unit (NDVI_Interpolated df ! 270)"
proof -
  let ?xs = "map (\<lambda>d. d - sowing_date self) [sowing_date self..harvest_date self]"
  obtain y where y: "balanced_presmooth self ?xs = Inr y" "length y = 271" "y ! 270 = NaN"
    using presmooth_season_270 [OF assms(1,2)] by blast
  obtain y0 where y0: "reconstruct L R ''balanced'' self ?xs = Inr y0"
      "NDVI_Interpolated df = map (\<lambda>v. np_clip v 0 1) y0"
    using interpolate_series [OF run] by blast
  have "y0 = gaussian_filter1d L y"
    using y0(1) y(1) by (simp add: reconstruct_def balanced_interpolation_def)
  moreover have "270 < length (gaussian_filter1d L y) \<and> gaussian_filter1d L y ! 270 = NaN"
    by (rule keeps) (simp_all add: y)
  ultimately show ?thesis using y0(2) by simp
qed

text \<open>
  Claim C3 fails on a season of exactly 270 days under the balanced method: the last
  phase divides by \<open>max(x_interp) - maturity_start = 0\<close>, so the series handed to the
  smoothing filter holds NaN at day 270, whatever the observations are. A filter that
  keeps NaN in place, as a weighted sum does, and the clipping leave NaN in the daily
  series (\<open>balanced_pipeline_season_270\<close>), which is not a value of the unit interval.
\<close>

theorem balanced_season_270_nan:
  assumes "ndvi_data self \<noteq> []" and "harvest_date self = sowing_date self + 270"
  shows "\<exists>y. balanced_presmooth self
               (map (\<lambda>d. d - sowing_date self) [sowing_date self..harvest_date self]) = Inr y \<and>
             length y = 271 \<and> y ! 270 = NaN"
  using assms by (rule presmooth_season_270)

theorem balanced_season_270_nan_witness:
  "\<exists>y. balanced_presmooth (new_analyzer [(100, 0.5), (200, 0.8)] 0 270)
               (map (\<lambda>d. d - sowing_date (new_analyzer [(100, 0.5), (200, 0.8)] 0 270))
                  [sowing_date (new_analyzer [(100, 0.5), (200, 0.8)] 0 270)..
                   harvest_date (new_analyzer [(100, 0.5), (200, 0.8)] 0 270)]) = Inr y \<and>
             length y = 271 \<and> y ! 270 = NaN"
proof -
  have a: "ndvi_data (new_analyzer [(100, 0.5), (200, 0.8)] 0 270) \<noteq> []"
    by (simp add: new_analyzer_def)
  have b: "harvest_date (new_analyzer [(100, 0.5), (200, 0.8)] 0 270)
             = sowing_date (new_analyzer [(100, 0.5), (200, 0.8)] 0 270) + 270"
    by (simp add: new_analyzer_def)
  show ?thesis by (rule balanced_season_270_nan [OF a b])
qed

lemma zip_columns:
  "zip (map (\<lambda>(t, v). t - s) rows) (map snd rows) = map (\<lambda>(t, v). (t - s, v)) rows"
  by (induction rows) auto

lemma length_constrained_baseline [simp]:
  "length (constrained_baseline p d xs) = length xs"
  by (simp add: constrained_baseline_def)

lemma balanced_presmooth_loop:
  assumes "ndvi_data self \<noteq> []"
  shows "balanced_presmooth self x_interp =
     Inr (fold (apply_observation x_interp) (observed_days self (ndvi_data self))
            (constrained_baseline (Max (set (ndvi_column self)))
               (real_of_int (sum_list (days_after_sowing self))
                  / real (length (days_after_sowing self))) x_interp))"
proof -
  obtain v r where vr: "ndvi_column self = v # r"
    using assms by (cases "ndvi_column self") (auto simp: ndvi_column_def)
  have z: "zip (days_after_sowing self) (ndvi_column self) = observed_days self (ndvi_data self)"
    by (simp add: days_after_sowing_def ndvi_column_def observed_days_def zip_columns)
  have m: "fold max r v = Max (set (ndvi_column self))"
    unfolding vr by (rule fold_max_Max)
  have "balanced_presmooth self x_interp =
     Inr (fold (apply_observation x_interp) (zip (days_after_sowing self) (ndvi_column self))
            (constrained_baseline (fold max r v)
               (real_of_int (sum_list (days_after_sowing self))
                  / real (length (days_after_sowing self))) x_interp))"
    unfolding balanced_presmooth_def Let_def constrained_baseline_def
    by (simp add: vr)
  then show ?thesis unfolding z m .
qed

lemma constrain_early_fin:
  "days < maturity_start \<Longrightarrow> \<exists>r. balanced_constrain mx days (Fin b) = Fin r"
  by (simp add: balanced_constrain_def blend_def Let_def)

text \<open>
  Claim C4. In the balanced (guided) reconstruction, take any observation of the session
  whose day offset is one of the reconstructed days, and let \<open>y_pre\<close> be the series when
  the observation loop reaches it: the constrained baseline after the pulls of the
  observations before it. Right after its point pull, and still after its pass over the
  nearby days, the value at its day is \<open>0.9 * observed + 0.1 * pre\<close>, with \<open>pre\<close> the
  value of \<open>y_pre\<close> at that day. The reconstruction continues the loop from that series
  with the later observations, and returns it when the observation is the last one.
\<close>

theorem guided_pull_value:
  assumes obs: "ndvi_data self = before @ (t, v) # after"
      and day: "t - sowing_date self \<in> set x_interp"
  shows "\<exists>y_pre y_post idx.
       idx = first_index x_interp (t - sowing_date self) \<and>
       y_pre = fold (apply_observation x_interp) (observed_days self before)
                 (constrained_baseline (Max (set (ndvi_column self)))
                    (real_of_int (sum_list (days_after_sowing self))
                       / real (length (days_after_sowing self))) x_interp) \<and>
       y_post = apply_observation x_interp (t - sowing_date self, v) y_pre \<and>
       balanced_presmooth self x_interp =
         Inr (fold (apply_observation x_interp) (observed_days self after) y_post) \<and>
       idx < length x_interp \<and> x_interp ! idx = t - sowing_date self \<and>
       pull_point y_pre idx v ! idx = np_add (Fin (0.9 * v)) (np_mul (Fin 0.1) (y_pre ! idx)) \<and>
       y_post ! idx = np_add (Fin (0.9 * v)) (np_mul (Fin 0.1) (y_pre ! idx)) \<and>
       (\<forall>pre. y_pre ! idx = Fin pre \<longrightarrow> y_post ! idx = Fin (0.9 * v + 0.1 * pre)) \<and>
       (after = [] \<longrightarrow> balanced_presmooth self x_interp = Inr y_post)"
proof -
  let ?d = "t - sowing_date self"
  let ?idx = "first_index x_interp ?d"
  let ?con = "constrained_baseline (Max (set (ndvi_column self)))
                    (real_of_int (sum_list (days_after_sowing self))
                       / real (length (days_after_sowing self))) x_interp"
  let ?pre = "fold (apply_observation x_interp) (observed_days self before) ?con"
  let ?post = "apply_observation x_interp (?d, v) ?pre"
  have ne: "ndvi_data self \<noteq> []" using obs by simp
  have split: "observed_days self (ndvi_data self) =
      observed_days self before @ (?d, v) # observed_days self after"
    unfolding obs by (simp add: observed_days_def)
  have run: "balanced_presmooth self x_interp =
         Inr (fold (apply_observation x_interp) (observed_days self after) ?post)"
    unfolding balanced_presmooth_loop [OF ne] split by simp
  have lp: "length ?pre = length x_interp"
    by (rule length_fold_apply_observation) simp
  have i: "?idx < length x_interp" by (rule first_index_less [OF day])
  have at: "x_interp ! ?idx = ?d" by (rule first_index_nth [OF day])
  have pp: "pull_point ?pre ?idx v ! ?idx = np_add (Fin (0.9 * v)) (np_mul (Fin 0.1) (?pre ! ?idx))"
    by (rule pull_point_at_idx) (simp add: lp i)
  have po: "?post ! ?idx = np_add (Fin (0.9 * v)) (np_mul (Fin 0.1) (?pre ! ?idx))"
    by (rule apply_observation_at_idx [OF day lp])
  have fin: "\<forall>pre. ?pre ! ?idx = Fin pre \<longrightarrow> ?post ! ?idx = Fin (0.9 * v + 0.1 * pre)"
    unfolding po by simp
  have last: "after = [] \<longrightarrow> balanced_presmooth self x_interp = Inr ?post"
    unfolding run by (simp add: observed_days_def)
  show ?thesis
    apply (rule exI [of _ ?pre], rule exI [of _ ?post], rule exI [of _ ?idx])
    apply (intro conjI)
             apply (rule refl)
            apply (rule refl)
           apply (rule refl)
          apply (rule run)
         apply (rule i)
        apply (rule at)
       apply (rule pp)
      apply (rule po)
     apply (rule fin)
    apply (rule last)
    done
qed

theorem guided_pull_value_witness:
  "\<exists>y pre.
     balanced_presmooth (new_analyzer [(1, 0.8)] 0 2) [0, 1, 2] = Inr y \<and>
     constrained_baseline 0.8 1 [0, 1, 2] ! 1 = Fin pre \<and>
     y ! 1 = Fin (0.9 * 0.8 + 0.1 * pre)"
proof -
  let ?W = "new_analyzer [(1, 0.8)] 0 2"
  have o: "ndvi_data ?W = [] @ (1, 0.8) # []" by (simp add: new_analyzer_def)
  have d: "1 - sowing_date ?W \<in> set [0, 1, 2]" by (simp add: new_analyzer_def)
  have pk: "Max (set (ndvi_column ?W)) = 0.8" by (simp add: new_analyzer_def ndvi_column_def)
  have mean: "real_of_int (sum_list (days_after_sowing ?W)) / real (length (days_after_sowing ?W)) = 1"
    by (simp add: new_analyzer_def days_after_sowing_def)
  have ix: "first_index [0, 1, 2] (1 - sowing_date ?W) = 1"
    by (simp add: new_analyzer_def first_index_def)
  obtain pre where pre: "constrained_baseline 0.8 1 [0, 1, 2] ! 1 = Fin pre"
    using constrain_early_fin [of 1 "py_max_list [0, 1, 2]"]
    by (auto simp: constrained_baseline_def sigmoid_baseline_def maturity_start_def)
  from guided_pull_value [OF o d] obtain y_pre y_post where
      a: "y_pre = fold (apply_observation [0, 1, 2]) (observed_days ?W [])
                 (constrained_baseline 0.8 1 [0, 1, 2])"
      and b: "\<forall>pre. y_pre ! 1 = Fin pre \<longrightarrow> y_post ! 1 = Fin (0.9 * 0.8 + 0.1 * pre)"
      and c: "[] = ([]::(int \<times> real) list) \<longrightarrow> balanced_presmooth ?W [0, 1, 2] = Inr y_post"
    unfolding pk mean ix by blast
  have "y_pre ! 1 = Fin pre" unfolding a using pre by (simp add: observed_days_def)
  with b have "y_post ! 1 = Fin (0.9 * 0.8 + 0.1 * pre)" by blast
  moreover from c have "balanced_presmooth ?W [0, 1, 2] = Inr y_post" by simp
  ultimately show ?thesis using pre by blast
qed

section \<open>Properties of the stage segmenter\<close>


lemma fold_min_Min_int: "fold min r (v::int) = Min (set (v # r))"
  by (metis Min.set_eq_fold)

lemma label_rows:
  "length labels = length dates \<Longrightarrow>
   length (fold (\<lambda>sd labels. map (\<lambda>(d, l). assign_stage gsd h d sd l) (zip dates labels))
             stages labels) = length dates \<and>
   (\<forall>i < length dates.
      fold (\<lambda>sd labels. map (\<lambda>(d, l). assign_stage gsd h d sd l) (zip dates labels))
        stages labels ! i
      = fold (assign_stage gsd h (dates ! i)) stages (labels ! i))"
proof (induction stages arbitrary: labels)
  case Nil
  then show ?case by simp
next
  case (Cons sd stages)
  let ?l = "map (\<lambda>(d, l). assign_stage gsd h d sd l) (zip dates labels)"
  have len: "length ?l = length dates" using Cons.prems by simp
  have nth: "\<And>i. i < length dates \<Longrightarrow> ?l ! i = assign_stage gsd h (dates ! i) sd (labels ! i)"
    using Cons.prems by simp
  show ?case using Cons.IH [OF len] nth by simp
qed

lemma row_label_find:
  "fold (assign_stage gsd h d) stages l0 =
     (case List.find (\<lambda>sd. stage_mask gsd h sd d) (rev stages) of
        None \<Rightarrow> l0 | Some sd \<Rightarrow> fst sd)"
proof (induction stages arbitrary: l0)
  case Nil
  then show ?case by simp
next
  case (Cons sd stages)
  have app: "List.find P (xs @ [x]) =
      (case List.find P xs of None \<Rightarrow> (if P x then Some x else None) | Some y \<Rightarrow> Some y)"
    for P and xs :: "(string \<times> int) list" and x
    by (induction xs) simp_all
  have "fold (assign_stage gsd h d) (sd # stages) l0 =
          (case List.find (\<lambda>sd. stage_mask gsd h sd d) (rev stages) of
             None \<Rightarrow> assign_stage gsd h d sd l0 | Some y \<Rightarrow> fst y)"
    by (simp add: Cons.IH)
  also have "\<dots> = (case List.find (\<lambda>sd. stage_mask gsd h sd d) (rev (sd # stages)) of
        None \<Rightarrow> l0 | Some y \<Rightarrow> fst y)"
    by (cases "List.find (\<lambda>sd. stage_mask gsd h sd d) (rev stages)")
       (simp_all add: app assign_stage_def)
  finally show ?case .
qed

lemma find_SomeD: "List.find P xs = Some x \<Longrightarrow> x \<in> set xs \<and> P x"
  by (induction xs) (auto split: if_splits)

lemma mask_latest:
  assumes "stage_mask gsd h (s, a) d" and "s \<noteq> ''Harvest''"
  shows "a \<le> d \<and> (\<forall>(t, b) \<in> set gsd. b \<le> d \<longrightarrow> b \<le> a)"
proof (cases "map snd (filter (\<lambda>(s, b). a < b) gsd)")
  case Nil
  then have none: "\<And>t b. (t, b) \<in> set gsd \<Longrightarrow> \<not> a < b"
    by (auto simp: filter_empty_conv)
  from assms Nil have "a \<le> d" by (simp add: stage_mask_def)
  then show ?thesis using none by fastforce
next
  case (Cons a0 r)
  from assms Cons have ad: "a \<le> d" and lt: "d < fold min r a0"
    by (simp_all add: stage_mask_def)
  have m: "fold min r a0 = Min (set (map snd (filter (\<lambda>(s, b). a < b) gsd)))"
    unfolding Cons by (rule fold_min_Min_int)
  have "b \<le> a" if "(t, b) \<in> set gsd" "b \<le> d" for t b
  proof (rule ccontr)
    assume "\<not> b \<le> a"
    then have "b \<in> set (map snd (filter (\<lambda>(s, b). a < b) gsd))"
      using that(1) by force
    then have "Min (set (map snd (filter (\<lambda>(s, b). a < b) gsd))) \<le> b"
      by (intro Min_le) auto
    with lt m that(2) show False by simp
  qed
  then show ?thesis using ad by auto
qed

lemma latest_mask:
  assumes "a \<le> d" and "d \<le> h" and "s \<noteq> ''Harvest''"
      and "\<forall>(t, b) \<in> set gsd. b \<le> d \<longrightarrow> b \<le> a"
  shows "stage_mask gsd h (s, a) d"
proof (cases "map snd (filter (\<lambda>(s, b). a < b) gsd)")
  case Nil
  then show ?thesis using assms by (simp add: stage_mask_def)
next
  case (Cons a0 r)
  let ?A = "set (map snd (filter (\<lambda>(s, b). a < b) gsd))"
  have m: "fold min r a0 = Min ?A"
    unfolding Cons by (rule fold_min_Min_int)
  have ne: "?A \<noteq> {}" unfolding Cons by simp
  have "Min ?A \<in> ?A" using ne by (intro Min_in) auto
  then obtain t where "(t, Min ?A) \<in> set gsd" and "a < Min ?A" by auto
  then have "d < Min ?A" using assms(4) by fastforce
  then show ?thesis using assms(1,3) Cons m by (simp add: stage_mask_def)
qed

lemma mask_harvest: "stage_mask gsd h (''Harvest'', a) d \<longleftrightarrow> d = a"
  by (simp add: stage_mask_def)

lemma key_unique:
  "distinct (map fst gsd) \<Longrightarrow> (k, a) \<in> set gsd \<Longrightarrow> (k, b) \<in> set gsd \<Longrightarrow> a = b"
  by (rule eq_key_imp_eq_value)

lemma latest_entry:
  assumes "(s0, s) \<in> set gsd" and "s \<le> (d::int)"
  shows "\<exists>t m. (t, m) \<in> set gsd \<and> m \<le> d \<and> (\<forall>(t', b) \<in> set gsd. b \<le> d \<longrightarrow> b \<le> m)"
proof -
  let ?B = "snd ` {e \<in> set gsd. snd e \<le> d}"
  have fin: "finite ?B" by simp
  have ne: "?B \<noteq> {}" using assms by force
  have "Max ?B \<in> ?B" using fin ne by (rule Max_in)
  then obtain t where t: "(t, Max ?B) \<in> set gsd" "Max ?B \<le> d" by auto
  have "b \<le> Max ?B" if "(t', b) \<in> set gsd" "b \<le> d" for t' b
    using that fin by (intro Max_ge) force+
  then show ?thesis using t by blast
qed

lemma row_label_spec:
  assumes dist: "distinct (map fst gsd)"
      and hv: "gsd = front @ [(''Harvest'', h)]"
      and sow: "(s0, s) \<in> set gsd" and sd: "s \<le> d" and dh: "d \<le> h"
  shows "\<exists>a. (fold (assign_stage gsd h d) gsd l0, a) \<in> set gsd \<and> a \<le> d \<and>
              (\<forall>(t, b) \<in> set gsd. b \<le> d \<longrightarrow> b \<le> a) \<and>
              (fold (assign_stage gsd h d) gsd l0 = ''Harvest'' \<longleftrightarrow> d = h)"
proof (cases "d = h")
  case True
  have "List.find (\<lambda>sd. stage_mask gsd h sd d) (rev gsd) = Some (''Harvest'', h)"
    unfolding hv [symmetric] by (subst hv) (simp add: mask_harvest True)
  then have lab: "fold (assign_stage gsd h d) gsd l0 = ''Harvest''"
    by (simp add: row_label_find)
  have hin: "(''Harvest'', h) \<in> set gsd" by (subst hv) simp
  have "\<forall>(t, b) \<in> set gsd. b \<le> d \<longrightarrow> b \<le> h" using True by auto
  then show ?thesis using lab hin True by auto
next
  case False
  then have lt: "d < h" using dh by simp
  have hin: "(''Harvest'', h) \<in> set gsd" by (subst hv) simp
  obtain t m where tm: "(t, m) \<in> set gsd" "m \<le> d"
      "\<forall>(t', b) \<in> set gsd. b \<le> d \<longrightarrow> b \<le> m"
    using latest_entry [OF sow sd] by blast
  have "t \<noteq> ''Harvest''"
  proof
    assume "t = ''Harvest''"
    then have "m = h" using key_unique [OF dist _ hin] tm(1) by simp
    with tm(2) lt show False by simp
  qed
  then have "stage_mask gsd h (t, m) d"
    using latest_mask [OF tm(2) dh _ tm(3)] by simp
  then have "List.find (\<lambda>sd. stage_mask gsd h sd d) (rev gsd) \<noteq> None"
    using tm(1) unfolding find_None_iff by auto
  then obtain t' a' where f: "List.find (\<lambda>sd. stage_mask gsd h sd d) (rev gsd) = Some (t', a')"
    by (cases "List.find (\<lambda>sd. stage_mask gsd h sd d) (rev gsd)") auto
  then have in': "(t', a') \<in> set gsd" and mk: "stage_mask gsd h (t', a') d"
    using find_SomeD [OF f] by simp_all
  have nh: "t' \<noteq> ''Harvest''"
  proof
    assume e: "t' = ''Harvest''"
    then have "a' = h" using key_unique [OF dist _ hin] in' by simp
    with mk e have "d = h" by (simp add: mask_harvest)
    with False show False by simp
  qed
  have lab: "fold (assign_stage gsd h d) gsd l0 = t'"
    by (simp add: row_label_find f)
  show ?thesis
    using mask_latest [OF mk nh] in' nh False unfolding lab by auto
qed


lemma label_dates_nth:
  assumes "i < length dates"
  shows "length (label_dates gsd h dates) = length dates \<and>
         label_dates gsd h dates ! i = fold (assign_stage gsd h (dates ! i)) gsd ''Unknown''"
  using label_rows [of "replicate (length dates) ''Unknown''" dates gsd h gsd] assms
  unfolding label_dates_def by simp

lemma schedule_shape:
  "distinct (map fst (growth_stage_dates s h p)) \<and>
   growth_stage_dates s h p = butlast (growth_stage_dates s h p) @ [(''Harvest'', h)] \<and>
   (''Sowing'', s) \<in> set (growth_stage_dates s h p) \<and>
   length (growth_stage_dates s h p) = 10"
  by (simp add: growth_stage_dates_def)

lemma demo_idxmax: "idxmax (NDVI_Interpolated demo_series) = Some 1"
  by (simp add: demo_series_def idxmax_def upt_rec)

text \<open>
  Claim C5. On a daily series covering the season from the sowing date to the harvest
  date, the stage segmenter returns exactly the ten anchors of the fixed schedule, built
  from the season start, the season end and the date of the peak, and gives every day a
  label of the schedule whose anchor is the latest anchor not after that day; the label is
  Harvest exactly on the season-end date.
\<close>

theorem stage_segmentation:
  assumes "daily_ndvi self = Some df"
      and "Date df = [sowing_date self..harvest_date self]"
      and "idxmax (NDVI_Interpolated df) = Some peak_idx"
  shows "\<exists>gsd labels peak.
     estimate_growth_stages self =
       Inr (gsd, self\<lparr>daily_ndvi := Some (df\<lparr>Growth_Stage := Some labels\<rparr>)\<rparr>) \<and>
     peak = Date df ! peak_idx \<and>
     gsd = [(''Sowing'', sowing_date self),
            (''Emergence'', sowing_date self + 10),
            (''Tillering'', sowing_date self + 45),
            (''Stem Elongation'', sowing_date self + 120),
            (''Booting'', peak - 20),
            (''Heading'', peak - 10),
            (''Flowering'', peak),
            (''Grain Filling'', peak + 15),
            (''Maturity'', harvest_date self - 25),
            (''Harvest'', harvest_date self)] \<and>
     length gsd = 10 \<and>
     length labels = length (Date df) \<and>
     (\<forall>i < length (Date df).
        \<exists>a. (labels ! i, a) \<in> set gsd \<and> a \<le> Date df ! i \<and>
            (\<forall>(t, b) \<in> set gsd. b \<le> Date df ! i \<longrightarrow> b \<le> a) \<and>
            (labels ! i = ''Harvest'' \<longleftrightarrow> Date df ! i = harvest_date self))"
proof -
  let ?s = "sowing_date self" and ?h = "harvest_date self"
  let ?gsd = "growth_stage_dates ?s ?h (Date df ! peak_idx)"
  let ?labels = "label_dates ?gsd ?h (Date df)"
  note sh = schedule_shape [of ?s ?h "Date df ! peak_idx"]
  have run: "estimate_growth_stages self =
      Inr (?gsd, self\<lparr>daily_ndvi := Some (df\<lparr>Growth_Stage := Some ?labels\<rparr>)\<rparr>)"
    using assms(1,3) by (simp add: estimate_growth_stages_def Let_def)
  have len: "length ?labels = length (Date df)"
    unfolding label_dates_def
    using label_rows [of "replicate (length (Date df)) ''Unknown''" "Date df" ?gsd ?h ?gsd]
    by simp
  have row: "\<exists>a. (?labels ! i, a) \<in> set ?gsd \<and> a \<le> Date df ! i \<and>
            (\<forall>(t, b) \<in> set ?gsd. b \<le> Date df ! i \<longrightarrow> b \<le> a) \<and>
            (?labels ! i = ''Harvest'' \<longleftrightarrow> Date df ! i = ?h)"
    if i: "i < length (Date df)" for i
  proof -
    have d: "Date df ! i = ?s + int i" and b: "?s + int i \<le> ?h"
      using i unfolding assms(2) by simp_all
    have lo: "?s \<le> Date df ! i" and hi: "Date df ! i \<le> ?h" using d b by simp_all
    have lab: "?labels ! i = fold (assign_stage ?gsd ?h (Date df ! i)) ?gsd ''Unknown''"
      using label_dates_nth [OF i] by simp
    from sh have dist: "distinct (map fst ?gsd)"
      and hv: "?gsd = butlast ?gsd @ [(''Harvest'', ?h)]"
      and sow: "(''Sowing'', ?s) \<in> set ?gsd" by simp_all
    show ?thesis
      unfolding lab by (rule row_label_spec [OF dist hv sow lo hi])
  qed
  have shape: "?gsd = [(''Sowing'', ?s), (''Emergence'', ?s + 10), (''Tillering'', ?s + 45),
            (''Stem Elongation'', ?s + 120), (''Booting'', Date df ! peak_idx - 20),
            (''Heading'', Date df ! peak_idx - 10), (''Flowering'', Date df ! peak_idx),
            (''Grain Filling'', Date df ! peak_idx + 15), (''Maturity'', ?h - 25),
            (''Harvest'', ?h)]"
    by (simp add: growth_stage_dates_def)
  have l10: "length ?gsd = 10" using sh by simp
  show ?thesis
    apply (rule exI [of _ ?gsd], rule exI [of _ ?labels], rule exI [of _ "Date df ! peak_idx"])
    apply (intro conjI)
         apply (rule run)
        apply (rule refl)
       apply (rule shape)
      apply (rule l10)
     apply (rule len)
    using row apply blast
    done
qed

theorem stage_segmentation_witness:
  "\<exists>gsd labels a.
     estimate_growth_stages demo_session =
       Inr (gsd, demo_session\<lparr>daily_ndvi := Some (demo_series\<lparr>Growth_Stage := Some labels\<rparr>)\<rparr>) \<and>
     length gsd = 10 \<and> length labels = 3 \<and>
     (labels ! 1, a) \<in> set gsd \<and> a \<le> 1 \<and> labels ! 1 \<noteq> ''Harvest''"
proof -
  have h1: "daily_ndvi demo_session = Some demo_series" by (simp add: demo_session_def)
  have h2: "Date demo_series = [sowing_date demo_session..harvest_date demo_session]"
    by (simp add: demo_session_def demo_series_def upto_rec1)
  obtain gsd labels where r:
      "estimate_growth_stages demo_session =
         Inr (gsd, demo_session\<lparr>daily_ndvi := Some (demo_series\<lparr>Growth_Stage := Some labels\<rparr>)\<rparr>)"
      "length gsd = 10" "length labels = length (Date demo_series)"
      "\<forall>i < length (Date demo_series).
         \<exists>a. (labels ! i, a) \<in> set gsd \<and> a \<le> Date demo_series ! i \<and>
             (\<forall>(t, b) \<in> set gsd. b \<le> Date demo_series ! i \<longrightarrow> b \<le> a) \<and>
             (labels ! i = ''Harvest'' \<longleftrightarrow> Date demo_series ! i = harvest_date demo_session)"
    using stage_segmentation [OF h1 h2 demo_idxmax] by blast
  have d: "length (Date demo_series) = 3" "Date demo_series ! 1 = 1"
      "harvest_date demo_session = 2"
    by (simp_all add: demo_series_def demo_session_def)
  have "1 < length (Date demo_series)" using d(1) by simp
  with r(4) have "\<exists>a. (labels ! 1, a) \<in> set gsd \<and> a \<le> Date demo_series ! 1 \<and>
             (\<forall>(t, b) \<in> set gsd. b \<le> Date demo_series ! 1 \<longrightarrow> b \<le> a) \<and>
             (labels ! 1 = ''Harvest'' \<longleftrightarrow> Date demo_series ! 1 = harvest_date demo_session)"
    by blast
  then obtain a where "(labels ! 1, a) \<in> set gsd" "a \<le> 1" "labels ! 1 \<noteq> ''Harvest''"
    unfolding d(2,3) by auto
  then show ?thesis using r(1,2,3) d(1) by auto
qed

end
